theory Spec2Isabelle
  imports Main
begin

section \<open>Data model (src/database/models.py)\<close>

text \<open>
  The column \<open>status\<close> of \<open>AppointmentReminder\<close> is an SQL enumeration of the five
  strings 'scheduled', 'sent', 'confirmed', 'rescheduled', 'failed'.
\<close>

datatype reminder_status = Scheduled | Sent | Confirmed | Rescheduled | Failed

text \<open>
  A naive \<open>datetime\<close> is modelled as the number of microseconds since \<open>datetime.min\<close>
  (0001-01-01T00:00:00). Subtracting a \<open>timedelta\<close> that would leave the representable
  range raises \<open>OverflowError\<close> in Python; \<open>datetime_sub\<close> writes that out.
\<close>

type_synonym instant = int

definition hours24 :: int where
  "hours24 = 24 * 3600 * 1000000"

definition datetime_sub :: "instant \<Rightarrow> int \<Rightarrow> string + instant" where
  "datetime_sub d delta =
     (if d - delta < 0 then Inl ''date value out of range'' else Inr (d - delta))"

text \<open>
  One row of the table \<open>appointment_reminders\<close>. The primary key \<open>id\<close> is called
  \<open>reminder_id\<close> here; \<open>message\<close> and \<open>call_sid\<close> are the two nullable columns. The
  columns \<open>created_at\<close> and \<open>updated_at\<close> are filled in by the storage layer and read by
  no operation of the service; they are left out.
\<close>

record AppointmentReminder =
  reminder_id :: nat
  patient_name :: string
  phone_number :: string
  appointment_date :: instant
  message :: "string option"
  status :: reminder_status
  call_sid :: "string option"

text \<open>
  The table is the list of its rows in insertion order. A query
  \<open>db.query(AppointmentReminder).filter(c).first()\<close> is \<open>find c\<close>; mutating the object the
  query returned and committing is \<open>update_first\<close> with the same condition. Commits are
  taken to succeed.
\<close>

type_synonym db = "AppointmentReminder list"

fun update_first :: "('a \<Rightarrow> bool) \<Rightarrow> ('a \<Rightarrow> 'a) \<Rightarrow> 'a list \<Rightarrow> 'a list" where
  "update_first P f [] = []"
| "update_first P f (x # xs) = (if P x then f x # xs else x # update_first P f xs)"

definition next_id :: "db \<Rightarrow> nat" where
  "next_id rows = Suc (fold max (map reminder_id rows) 0)"

text \<open>
  What the loggers of the two services write, one constructor per message of the source,
  carrying the values the message interpolates.
\<close>

datatype log_entry =
    LogCreated string string
  | LogCreateError string
  | LogReminderNotFound nat
  | LogWouldSchedule instant nat
  | LogScheduleError string
  | LogMadeCall string nat
  | LogCallError string
  | LogNoReminderForSid "string option"
  | LogStatusUpdated nat reminder_status
  | LogNoReminderWithId nat
  | LogInitiatedCall string string
  | LogMakeCallError string

section \<open>Telephony service (src/voice/twilio_service.py)\<close>

text \<open>
  \<open>make_call\<close>: without an initialised client it raises \<open>ValueError\<close>; otherwise the
  provider either returns the SID of the new call or raises, which is logged and raised
  again. The provider's answer is the argument \<open>provider\<close> (\<open>Inl\<close> the message of the
  exception, \<open>Inr\<close> the SID).
\<close>

definition make_call ::
  "bool \<Rightarrow> string + string \<Rightarrow> string \<Rightarrow> (string + string) \<times> log_entry list" where
  "make_call client provider to_number =
     (if \<not> client then (Inl ''Twilio client not initialized. Check your credentials.'', [])
      else (case provider of
              Inr sid \<Rightarrow> (Inr sid, [LogInitiatedCall to_number sid])
            | Inl e \<Rightarrow> (Inl e, [LogMakeCallError e])))"






section \<open>Appointment service (src/appointments/appointment_service.py)\<close>

text \<open>
  \<open>create_appointment_reminder\<close>. \<open>datetime.fromisoformat\<close> is the parameter
  \<open>fromisoformat\<close> (\<open>Inl\<close> the message of the \<open>ValueError\<close> it raises). On an exception the
  session is rolled back, the error logged and the exception raised again.
\<close>

definition create_appointment_reminder ::
  "(string \<Rightarrow> string + instant) \<Rightarrow> db \<Rightarrow> string \<Rightarrow> string \<Rightarrow> string \<Rightarrow> string option
     \<Rightarrow> (string + nat) \<times> db \<times> log_entry list" where
  "create_appointment_reminder fromisoformat rows phone date_str name msg =
     (case fromisoformat date_str of
        Inl e \<Rightarrow> (Inl e, rows, [LogCreateError e])
      | Inr appointment_datetime \<Rightarrow>
          (let reminder = \<lparr>reminder_id = next_id rows, patient_name = name,
                           phone_number = phone, appointment_date = appointment_datetime,
                           message = msg, status = Scheduled, call_sid = None\<rparr>
           in (Inr (reminder_id reminder), rows @ [reminder], [LogCreated name date_str])))"

text \<open>
  \<open>_make_reminder_call\<close>. \<open>gen\<close> is what \<open>voice_agent.get_appointment_reminder\<close> does
  (\<open>Inl\<close> the message of the exception it raises, \<open>Inr\<close> the reminder text). The voice response
  generated from the text is not used by the function. The reminder object belongs to
  the row with its id; committing writes it there.
\<close>

definition make_reminder_call ::
  "AppointmentReminder \<Rightarrow> db \<Rightarrow> string + string \<Rightarrow> bool \<Rightarrow> string + string
     \<Rightarrow> db \<times> log_entry list" where
  "make_reminder_call reminder rows gen client provider =
     (let same = (\<lambda>r. reminder_id r = reminder_id reminder) in
      case gen of
        Inl e \<Rightarrow>
          (update_first same (\<lambda>_. reminder\<lparr>status := Failed\<rparr>) rows, [LogCallError e])
      | Inr reminder_text \<Rightarrow>
          (case make_call client provider (phone_number reminder) of
             (Inl e, l) \<Rightarrow>
               (update_first same (\<lambda>_. reminder\<lparr>status := Failed\<rparr>) rows,
                l @ [LogCallError e])
           | (Inr sid, l) \<Rightarrow>
               (update_first same (\<lambda>_. reminder\<lparr>call_sid := Some sid, status := Sent\<rparr>) rows,
                l @ [LogMadeCall (phone_number reminder) (reminder_id reminder)])))"

text \<open>
  \<open>schedule_reminder_call\<close>, with \<open>datetime.utcnow()\<close> as the argument \<open>utcnow\<close>. Any
  exception is caught and logged.
\<close>

definition schedule_reminder_call ::
  "nat \<Rightarrow> db \<Rightarrow> instant \<Rightarrow> string + string \<Rightarrow> bool \<Rightarrow> string + string
     \<Rightarrow> db \<times> log_entry list" where
  "schedule_reminder_call rid rows utcnow gen client provider =
     (case find (\<lambda>r. reminder_id r = rid) rows of
        None \<Rightarrow> (rows, [LogReminderNotFound rid])
      | Some reminder \<Rightarrow>
          (case datetime_sub (appointment_date reminder) hours24 of
             Inl e \<Rightarrow> (rows, [LogScheduleError e])
           | Inr call_time \<Rightarrow>
               if call_time < utcnow then make_reminder_call reminder rows gen client provider
               else (rows, [LogWouldSchedule call_time rid])))"

text \<open>
  \<open>handle_call_status_callback\<close>. The filter \<open>AppointmentReminder.call_sid == call_sid\<close>
  compares a nullable column: with a string it selects the rows holding that string,
  with \<open>None\<close> (which the route below passes for a reminder without SID) the rows whose
  column is null. Equality on \<open>string option\<close> is both.
\<close>

definition handle_call_status_callback ::
  "string option \<Rightarrow> string \<Rightarrow> db \<Rightarrow> db \<times> log_entry list" where
  "handle_call_status_callback sid st rows =
     (case find (\<lambda>r. call_sid r = sid) rows of
        None \<Rightarrow> (rows, [LogNoReminderForSid sid])
      | Some reminder \<Rightarrow>
          (let reminder' =
                 (if st = ''completed'' then reminder\<lparr>status := Sent\<rparr>
                  else if st = ''failed'' \<or> st = ''busy'' \<or> st = ''no-answer''
                       then reminder\<lparr>status := Failed\<rparr>
                  else reminder)
           in (update_first (\<lambda>r. call_sid r = sid) (\<lambda>_. reminder') rows,
               [LogStatusUpdated (reminder_id reminder') (status reminder')])))"

text \<open>\<open>handle_appointment_confirmation\<close> of the appointment service.\<close>

definition handle_appointment_confirmation ::
  "nat \<Rightarrow> bool \<Rightarrow> db \<Rightarrow> db \<times> log_entry list" where
  "handle_appointment_confirmation rid confirmed rows =
     (case find (\<lambda>r. reminder_id r = rid) rows of
        None \<Rightarrow> (rows, [LogNoReminderWithId rid])
      | Some reminder \<Rightarrow>
          (let reminder' =
                 (if confirmed then reminder\<lparr>status := Confirmed\<rparr>
                  else reminder\<lparr>status := Rescheduled\<rparr>)
           in (update_first (\<lambda>r. reminder_id r = rid) (\<lambda>_. reminder') rows,
               [LogStatusUpdated (reminder_id reminder') (status reminder')])))"

section \<open>The status webhook (src/api/routes.py)\<close>

text \<open>
  \<open>call_status_callback\<close>: the route \<open>/call-status-callback/{reminder_id}\<close>. It answers
  with an \<open>HTTPException\<close> of status 404 when no reminder has the id, and otherwise hands
  the reminder's SID and the status "completed" to the service.
\<close>

datatype http_error = HTTPException nat

definition call_status_callback ::
  "nat \<Rightarrow> db \<Rightarrow> (http_error + string) \<times> db \<times> log_entry list" where
  "call_status_callback rid rows =
     (case find (\<lambda>r. reminder_id r = rid) rows of
        None \<Rightarrow> (Inl (HTTPException 404), rows, [])
      | Some reminder \<Rightarrow>
          (case handle_call_status_callback (call_sid reminder) ''completed'' rows of
             (rows', l) \<Rightarrow> (Inr ''Status updated successfully'', rows', l)))"

section \<open>Running a reminder call\<close>






section \<open>Sequences of operations\<close>

text \<open>
  The entry points of the service and of the status route, each with what its
  collaborators answer during the call. \<open>fromisoformat\<close> and the state of the
  telephony client are fixed for a run.
\<close>

datatype operation =
    Create string string string "string option"
  | ScheduleCall nat instant "string + string" "string + string"
  | StatusCallback "string option" string
  | AppointmentConfirmation nat bool
  | StatusWebhook nat

fun apply_operation ::
  "(string \<Rightarrow> string + instant) \<Rightarrow> bool \<Rightarrow> operation \<Rightarrow> db \<Rightarrow> db" where
  "apply_operation fromisoformat client (Create phone date_str name msg) rows =
     fst (snd (create_appointment_reminder fromisoformat rows phone date_str name msg))"
| "apply_operation fromisoformat client (ScheduleCall rid utcnow gen provider) rows =
     fst (schedule_reminder_call rid rows utcnow gen client provider)"
| "apply_operation fromisoformat client (StatusCallback sid st) rows =
     fst (handle_call_status_callback sid st rows)"
| "apply_operation fromisoformat client (AppointmentConfirmation rid confirmed) rows =
     fst (handle_appointment_confirmation rid confirmed rows)"
| "apply_operation fromisoformat client (StatusWebhook rid) rows =
     fst (snd (call_status_callback rid rows))"

definition run_operations ::
  "(string \<Rightarrow> string + instant) \<Rightarrow> bool \<Rightarrow> operation list \<Rightarrow> db \<Rightarrow> db" where
  "run_operations fromisoformat client ops rows =
     fold (apply_operation fromisoformat client) ops rows"

definition scheduled_without_sid :: "db \<Rightarrow> bool" where
  "scheduled_without_sid rows =
     list_all (\<lambda>r. status r \<noteq> Scheduled \<or> call_sid r = None) rows"

definition sid_iff_attempted :: "AppointmentReminder \<Rightarrow> bool" where
  "sid_iff_attempted r =
     ((call_sid r \<noteq> None) = (status r \<in> {Sent, Confirmed, Rescheduled, Failed}))"

section \<open>Example data\<close>

text \<open>
  A reminder for 2030-01-01T10:00:00 whose call has been placed under the SID \<open>CA1\<close>,
  and the same reminder before any call.
\<close>

definition sent_reminder :: AppointmentReminder where
  "sent_reminder =
     \<lparr>reminder_id = 1, patient_name = ''Ann'', phone_number = ''+15550100'',
      appointment_date = 64029088800000000, message = None, status = Sent,
      call_sid = Some ''CA1''\<rparr>"

definition fresh_reminder :: AppointmentReminder where
  "fresh_reminder =
     \<lparr>reminder_id = 1, patient_name = ''Ann'', phone_number = ''+15550100'',
      appointment_date = 64029088800000000, message = None, status = Scheduled,
      call_sid = None\<rparr>"

definition iso_example :: "string \<Rightarrow> string + instant" where
  "iso_example s =
     (if s = ''2030-01-01T10:00:00'' then Inr 64029088800000000
      else Inl ''Invalid isoformat string'')"


section \<open>Queries and updates of the first matching row\<close>

lemma update_first_None: "find P xs = None \<Longrightarrow> update_first P f xs = xs"
  by (induction xs) (auto split: if_splits)

lemma update_first_same: "find P xs = Some r \<Longrightarrow> f r = r \<Longrightarrow> update_first P f xs = xs"
  by (induction xs) (auto split: if_splits)

lemma find_update_first:
  "find P xs = Some r \<Longrightarrow> P (f r) \<Longrightarrow> find P (update_first P f xs) = Some (f r)"
  by (induction xs) (auto split: if_splits)

lemma length_update_first: "length (update_first P f xs) = length xs"
  by (induction xs) auto

lemma filter_update_first:
  "(\<And>x. P x \<Longrightarrow> P (f x)) \<Longrightarrow>
     filter (\<lambda>x. \<not> P x) (update_first P f xs) = filter (\<lambda>x. \<not> P x) xs"
  by (induction xs) auto

lemma find_Some_P: "find P xs = Some r \<Longrightarrow> P r"
  by (induction xs) (auto split: if_splits)

lemma find_Some_set: "find P xs = Some r \<Longrightarrow> r \<in> set xs"
  by (induction xs) (auto split: if_splits)

lemma update_first_twice:
  "find P xs = Some r \<Longrightarrow> P y \<Longrightarrow>
     update_first P (\<lambda>_. z) (update_first P (\<lambda>_. y) xs) = update_first P (\<lambda>_. z) xs"
  by (induction xs) (auto split: if_splits)

lemma list_all_update_first:
  "list_all Q xs \<Longrightarrow> Q y \<Longrightarrow> list_all Q (update_first P (\<lambda>_. y) xs)"
  by (induction xs) auto

lemma nth_update_first_status:
  "find P xs = Some r \<Longrightarrow> i < length xs \<Longrightarrow> status (xs ! i) \<noteq> Scheduled \<Longrightarrow>
     (status r \<noteq> Scheduled \<Longrightarrow> status y \<noteq> Scheduled) \<Longrightarrow>
     status (update_first P (\<lambda>_. y) xs ! i) \<noteq> Scheduled"
proof (induction xs arbitrary: i)
  case Nil
  then show ?case by simp
next
  case (Cons x xs)
  show ?case
  proof (cases "P x")
    case True
    with Cons.prems show ?thesis by (cases i) auto
  next
    case False
    with Cons show ?thesis by (cases i) auto
  qed
qed

section \<open>The status reconciler\<close>

lemma handle_found:
  assumes "find (\<lambda>r. call_sid r = sid) rows = Some r"
  shows "fst (handle_call_status_callback sid st rows) =
           update_first (\<lambda>r. call_sid r = sid)
             (\<lambda>_. if st = ''completed'' then r\<lparr>status := Sent\<rparr>
                  else if st = ''failed'' \<or> st = ''busy'' \<or> st = ''no-answer''
                       then r\<lparr>status := Failed\<rparr>
                  else r) rows"
  using assms by (simp add: handle_call_status_callback_def Let_def)

text \<open>
  Claim C10. A status event whose kind is none of "completed", "failed", "busy",
  "no-answer" (for instance "initiated", "ringing" or "answered") changes nothing:
  the table after \<open>handle_call_status_callback\<close> is the table before, so the matched
  reminder keeps its status and every other field.
\<close>

theorem reconcile_other_kind_unchanged:
  assumes "st \<noteq> ''completed''" "st \<noteq> ''failed''" "st \<noteq> ''busy''" "st \<noteq> ''no-answer''"
  shows "fst (handle_call_status_callback sid st rows) = rows"
proof (cases "find (\<lambda>r. call_sid r = sid) rows")
  case None
  then show ?thesis by (simp add: handle_call_status_callback_def)
next
  case (Some r)
  then have "update_first (\<lambda>r. call_sid r = sid) (\<lambda>_. r) rows = rows"
    by (rule update_first_same) simp
  with Some assms show ?thesis
    by (simp add: handle_call_status_callback_def)
qed

theorem reconcile_other_kind_unchanged_witness:
  "''ringing'' \<noteq> ''completed'' \<and> ''ringing'' \<noteq> ''failed'' \<and> ''ringing'' \<noteq> ''busy''
   \<and> ''ringing'' \<noteq> ''no-answer''
   \<and> fst (handle_call_status_callback (Some ''CA1'') ''ringing'' [sent_reminder])
       = [sent_reminder]"
  using reconcile_other_kind_unchanged [of "''ringing''" "Some ''CA1''" "[sent_reminder]"]
  by simp







text \<open>
  Claim C6, as the code has it. When no stored reminder carries the reference,
  \<open>handle_call_status_callback\<close> returns the table as it was, with one warning in the log
  and nothing raised or created. The route \<open>call_status_callback\<close> identifies the
  reminder by the id in its URL: when no reminder has that id it answers with an
  \<open>HTTPException\<close> of status 404 and leaves the table alone; when one has, it always
  answers "Status updated successfully".
\<close>

theorem unknown_reference_noop:
  "((\<forall>r \<in> set rows. call_sid r \<noteq> sid) \<longrightarrow>
      handle_call_status_callback sid st rows = (rows, [LogNoReminderForSid sid]))
   \<and> ((\<forall>r \<in> set rows. reminder_id r \<noteq> rid) \<longrightarrow>
      call_status_callback rid rows = (Inl (HTTPException 404), rows, []))
   \<and> ((\<exists>r \<in> set rows. reminder_id r = rid) \<longrightarrow>
      fst (call_status_callback rid rows) = Inr ''Status updated successfully'')"
proof (intro conjI impI)
  assume "\<forall>r \<in> set rows. call_sid r \<noteq> sid"
  then have "find (\<lambda>r. call_sid r = sid) rows = None" by (simp add: find_None_iff)
  then show "handle_call_status_callback sid st rows = (rows, [LogNoReminderForSid sid])"
    by (simp add: handle_call_status_callback_def)
next
  assume "\<forall>r \<in> set rows. reminder_id r \<noteq> rid"
  then have "find (\<lambda>r. reminder_id r = rid) rows = None" by (simp add: find_None_iff)
  then show "call_status_callback rid rows = (Inl (HTTPException 404), rows, [])"
    by (simp add: call_status_callback_def)
next
  assume "\<exists>r \<in> set rows. reminder_id r = rid"
  then have "find (\<lambda>r. reminder_id r = rid) rows \<noteq> None" by (auto simp add: find_None_iff)
  then show "fst (call_status_callback rid rows) = Inr ''Status updated successfully''"
    by (auto simp add: call_status_callback_def split: prod.splits)
qed

theorem unknown_reference_noop_witness:
  "call_sid sent_reminder \<noteq> Some ''nonexistent-ref''
   \<and> handle_call_status_callback (Some ''nonexistent-ref'') ''completed'' [sent_reminder]
       = ([sent_reminder], [LogNoReminderForSid (Some ''nonexistent-ref'')])
   \<and> reminder_id sent_reminder \<noteq> 7
   \<and> call_status_callback 7 [sent_reminder] = (Inl (HTTPException 404), [sent_reminder], [])
   \<and> reminder_id sent_reminder = 1
   \<and> fst (call_status_callback 1 [sent_reminder]) = Inr ''Status updated successfully''"
proof -
  have a: "\<forall>r \<in> set [sent_reminder]. call_sid r \<noteq> Some ''nonexistent-ref''"
    by (simp add: sent_reminder_def)
  have b: "\<forall>r \<in> set [sent_reminder]. reminder_id r \<noteq> 7"
    by (simp add: sent_reminder_def)
  have c: "\<exists>r \<in> set [sent_reminder]. reminder_id r = 1"
    by (simp add: sent_reminder_def)
  from a b c
    unknown_reference_noop [of "[sent_reminder]" "Some ''nonexistent-ref''" "''completed''" 7]
    unknown_reference_noop [of "[sent_reminder]" "Some ''nonexistent-ref''" "''completed''" 1]
  show ?thesis by (simp add: sent_reminder_def)
qed

text \<open>
  Claim C6 as stated fails in its last part: a status webhook that arrives for
  reminder 7 while the table is empty matches no stored reminder, and the route surfaces
  an error (status 404) to the sender.
\<close>

theorem webhook_unknown_reminder_counterexample:
  "fst (call_status_callback 7 []) = Inl (HTTPException 404)"
  by (simp add: call_status_callback_def)

section \<open>Statuses along a run\<close>

lemma make_reminder_call_rows:
  "fst (make_reminder_call reminder rows gen client provider) =
     update_first (\<lambda>r. reminder_id r = reminder_id reminder)
       (\<lambda>_. case gen of
               Inl e \<Rightarrow> reminder\<lparr>status := Failed\<rparr>
             | Inr t \<Rightarrow> (case fst (make_call client provider (phone_number reminder)) of
                          Inl e \<Rightarrow> reminder\<lparr>status := Failed\<rparr>
                        | Inr sid \<Rightarrow> reminder\<lparr>call_sid := Some sid, status := Sent\<rparr>)) rows"
  by (auto simp add: make_reminder_call_def Let_def split: sum.splits prod.splits)

lemma make_reminder_call_status:
  "status (case gen of
               Inl e \<Rightarrow> reminder\<lparr>status := Failed\<rparr>
             | Inr t \<Rightarrow> (case fst (make_call client provider (phone_number reminder)) of
                          Inl e \<Rightarrow> reminder\<lparr>status := Failed\<rparr>
                        | Inr sid \<Rightarrow> reminder\<lparr>call_sid := Some sid, status := Sent\<rparr>)) \<noteq> Scheduled"
  by (simp split: sum.splits)

lemma schedule_rows:
  "fst (schedule_reminder_call rid rows utcnow gen client provider) = rows
   \<or> (\<exists>reminder. find (\<lambda>r. reminder_id r = rid) rows = Some reminder
        \<and> fst (schedule_reminder_call rid rows utcnow gen client provider)
            = fst (make_reminder_call reminder rows gen client provider))"
  by (simp add: schedule_reminder_call_def split: option.splits sum.splits)

lemma confirmation_rows:
  "fst (handle_appointment_confirmation rid confirmed rows) = rows
   \<or> (\<exists>reminder. find (\<lambda>r. reminder_id r = rid) rows = Some reminder
        \<and> fst (handle_appointment_confirmation rid confirmed rows)
            = update_first (\<lambda>r. reminder_id r = rid)
                (\<lambda>_. reminder\<lparr>status := (if confirmed then Confirmed else Rescheduled)\<rparr>) rows)"
  by (simp add: handle_appointment_confirmation_def Let_def split: option.splits)

lemma webhook_rows:
  "fst (snd (call_status_callback rid rows)) =
     (case find (\<lambda>r. reminder_id r = rid) rows of
        None \<Rightarrow> rows
      | Some reminder \<Rightarrow> fst (handle_call_status_callback (call_sid reminder) ''completed'' rows))"
  by (simp add: call_status_callback_def split: option.splits prod.splits)

lemma create_rows:
  "fst (snd (create_appointment_reminder f rows phone d name msg)) = rows
   \<or> (\<exists>t. fst (snd (create_appointment_reminder f rows phone d name msg))
         = rows @ [\<lparr>reminder_id = next_id rows, patient_name = name,
                     phone_number = phone, appointment_date = t,
                     message = msg, status = Scheduled, call_sid = None\<rparr>])"
  by (simp add: create_appointment_reminder_def Let_def split: sum.splits)

lemma reconcile_keeps_unscheduled:
  assumes "i < length rows" "status (rows ! i) \<noteq> Scheduled"
  shows "status (fst (handle_call_status_callback sid st rows) ! i) \<noteq> Scheduled"
proof (cases "find (\<lambda>r. call_sid r = sid) rows")
  case None
  with assms show ?thesis by (simp add: handle_call_status_callback_def)
next
  case (Some r)
  show ?thesis
    unfolding handle_found [OF Some]
    by (rule nth_update_first_status [OF Some assms]) simp
qed

lemma make_call_keeps_unscheduled:
  assumes "find (\<lambda>r. reminder_id r = reminder_id reminder) rows = Some reminder"
    and "i < length rows" "status (rows ! i) \<noteq> Scheduled"
  shows "status (fst (make_reminder_call reminder rows gen client provider) ! i) \<noteq> Scheduled"
  unfolding make_reminder_call_rows
  by (rule nth_update_first_status [OF assms]) (rule make_reminder_call_status)

lemma apply_operation_keeps_unscheduled:
  assumes "i < length rows" "status (rows ! i) \<noteq> Scheduled"
  shows "status (apply_operation f c op rows ! i) \<noteq> Scheduled"
proof (cases op)
  case (Create phone d name msg)
  with create_rows [of f rows phone d name msg] assms show ?thesis
    by (auto simp add: nth_append)
next
  case (ScheduleCall rid utcnow gen provider)
  from schedule_rows [of rid rows utcnow gen c provider] show ?thesis
  proof
    assume "fst (schedule_reminder_call rid rows utcnow gen c provider) = rows"
    with ScheduleCall assms show ?thesis by simp
  next
    assume "\<exists>reminder. find (\<lambda>r. reminder_id r = rid) rows = Some reminder
        \<and> fst (schedule_reminder_call rid rows utcnow gen c provider)
            = fst (make_reminder_call reminder rows gen c provider)"
    then obtain reminder where f: "find (\<lambda>r. reminder_id r = rid) rows = Some reminder"
      and e: "fst (schedule_reminder_call rid rows utcnow gen c provider)
            = fst (make_reminder_call reminder rows gen c provider)" by blast
    have "reminder_id reminder = rid" using find_Some_P [OF f] .
    with f have "find (\<lambda>r. reminder_id r = reminder_id reminder) rows = Some reminder" by simp
    from make_call_keeps_unscheduled [OF this assms] e ScheduleCall show ?thesis by simp
  qed
next
  case (StatusCallback sid st)
  with reconcile_keeps_unscheduled [OF assms] show ?thesis by simp
next
  case (AppointmentConfirmation rid confirmed)
  from confirmation_rows [of rid confirmed rows] show ?thesis
  proof
    assume "fst (handle_appointment_confirmation rid confirmed rows) = rows"
    with AppointmentConfirmation assms show ?thesis by simp
  next
    assume "\<exists>reminder. find (\<lambda>r. reminder_id r = rid) rows = Some reminder
        \<and> fst (handle_appointment_confirmation rid confirmed rows)
            = update_first (\<lambda>r. reminder_id r = rid)
                (\<lambda>_. reminder\<lparr>status := (if confirmed then Confirmed else Rescheduled)\<rparr>) rows"
    then obtain reminder where f: "find (\<lambda>r. reminder_id r = rid) rows = Some reminder"
      and e: "fst (handle_appointment_confirmation rid confirmed rows)
            = update_first (\<lambda>r. reminder_id r = rid)
                (\<lambda>_. reminder\<lparr>status := (if confirmed then Confirmed else Rescheduled)\<rparr>) rows"
      by blast
    have "status (update_first (\<lambda>r. reminder_id r = rid)
                (\<lambda>_. reminder\<lparr>status := (if confirmed then Confirmed else Rescheduled)\<rparr>) rows ! i)
            \<noteq> Scheduled"
      by (rule nth_update_first_status [OF f assms]) simp
    with e AppointmentConfirmation show ?thesis by simp
  qed
next
  case (StatusWebhook rid)
  with reconcile_keeps_unscheduled [OF assms] assms show ?thesis
    by (simp add: webhook_rows split: option.splits)
qed

lemma length_make_reminder_call:
  "length (fst (make_reminder_call reminder rows gen client provider)) = length rows"
  by (simp add: make_reminder_call_rows length_update_first)

lemma length_reconcile:
  "length (fst (handle_call_status_callback sid st rows)) = length rows"
  by (cases "find (\<lambda>r. call_sid r = sid) rows")
     (simp_all add: handle_call_status_callback_def Let_def length_update_first)

lemma length_apply_operation: "length rows \<le> length (apply_operation f c op rows)"
proof (cases op)
  case (Create phone d name msg)
  with create_rows [of f rows phone d name msg] show ?thesis by auto
next
  case (ScheduleCall rid utcnow gen provider)
  with schedule_rows [of rid rows utcnow gen c provider] show ?thesis
    by (auto simp add: length_make_reminder_call)
next
  case (StatusCallback sid st)
  then show ?thesis by (simp add: length_reconcile)
next
  case (AppointmentConfirmation rid confirmed)
  with confirmation_rows [of rid confirmed rows] show ?thesis
    by (auto simp add: length_update_first)
next
  case (StatusWebhook rid)
  then show ?thesis by (simp add: webhook_rows length_reconcile split: option.splits)
qed

lemma run_keeps_unscheduled:
  "i < length rows \<Longrightarrow> status (rows ! i) \<noteq> Scheduled \<Longrightarrow>
     i < length (run_operations f c ops rows)
     \<and> status (run_operations f c ops rows ! i) \<noteq> Scheduled"
proof (induction ops arbitrary: rows)
  case Nil
  then show ?case by (simp add: run_operations_def)
next
  case (Cons op ops)
  have 1: "i < length (apply_operation f c op rows)"
    using length_apply_operation [of rows f c op] Cons.prems(1) by simp
  have 2: "status (apply_operation f c op rows ! i) \<noteq> Scheduled"
    using apply_operation_keeps_unscheduled [OF Cons.prems] .
  from Cons.IH [OF 1 2] show ?case by (simp add: run_operations_def)
qed

lemma last_event_wins:
  assumes "st2 \<in> {''completed'', ''failed'', ''busy'', ''no-answer''}"
  shows "fst (handle_call_status_callback sid st2 (fst (handle_call_status_callback sid st1 rows)))
       = fst (handle_call_status_callback sid st2 rows)"
proof (cases "find (\<lambda>r. call_sid r = sid) rows")
  case None
  then show ?thesis by (simp add: handle_call_status_callback_def)
next
  case (Some r)
  define y where "y = (if st1 = ''completed'' then r\<lparr>status := Sent\<rparr>
                  else if st1 = ''failed'' \<or> st1 = ''busy'' \<or> st1 = ''no-answer''
                       then r\<lparr>status := Failed\<rparr>
                  else r)"
  have sid: "call_sid r = sid" using find_Some_P [OF Some] .
  then have sidy: "call_sid y = sid" by (simp add: y_def)
  have one: "fst (handle_call_status_callback sid st1 rows)
      = update_first (\<lambda>r. call_sid r = sid) (\<lambda>_. y) rows"
    by (simp add: handle_found [OF Some] y_def)
  have found: "find (\<lambda>r. call_sid r = sid) (update_first (\<lambda>r. call_sid r = sid) (\<lambda>_. y) rows) = Some y"
    using find_update_first [OF Some, of "\<lambda>_. y"] sidy by simp
  have eq: "(if st2 = ''completed'' then y\<lparr>status := Sent\<rparr>
                  else if st2 = ''failed'' \<or> st2 = ''busy'' \<or> st2 = ''no-answer''
                       then y\<lparr>status := Failed\<rparr>
                  else y)
          = (if st2 = ''completed'' then r\<lparr>status := Sent\<rparr>
                  else if st2 = ''failed'' \<or> st2 = ''busy'' \<or> st2 = ''no-answer''
                       then r\<lparr>status := Failed\<rparr>
                  else r)"
    using assms by (auto simp add: y_def)
  have "fst (handle_call_status_callback sid st2 (fst (handle_call_status_callback sid st1 rows)))
      = fst (handle_call_status_callback sid st2
               (update_first (\<lambda>r. call_sid r = sid) (\<lambda>_. y) rows))"
    by (simp only: one)
  also have "\<dots> = update_first (\<lambda>r. call_sid r = sid)
             (\<lambda>_. if st2 = ''completed'' then r\<lparr>status := Sent\<rparr>
                  else if st2 = ''failed'' \<or> st2 = ''busy'' \<or> st2 = ''no-answer''
                       then r\<lparr>status := Failed\<rparr>
                  else r)
             (update_first (\<lambda>r. call_sid r = sid) (\<lambda>_. y) rows)"
    by (simp only: handle_found [OF found] eq)
  also have "\<dots> = update_first (\<lambda>r. call_sid r = sid)
             (\<lambda>_. if st2 = ''completed'' then r\<lparr>status := Sent\<rparr>
                  else if st2 = ''failed'' \<or> st2 = ''busy'' \<or> st2 = ''no-answer''
                       then r\<lparr>status := Failed\<rparr>
                  else r) rows"
    by (rule update_first_twice [OF Some sidy])
  also have "\<dots> = fst (handle_call_status_callback sid st2 rows)"
    by (simp only: handle_found [OF Some])
  finally show ?thesis .
qed

text \<open>
  Claim C1, as the code has it. No operation moves a reminder back into \<open>Scheduled\<close>:
  a stored reminder whose status is not \<open>Scheduled\<close> is still stored, and still not
  \<open>Scheduled\<close>, after every sequence of operations of the service and of the status
  route. The reconciler does not protect the terminal statuses: it overwrites the status
  of the matched reminder, so that when two events of the kinds "completed", "failed",
  "busy", "no-answer" arrive for the same reference, the table is the one the last of
  them alone would have given.
\<close>

theorem never_back_to_scheduled:
  "(i < length rows \<and> status (rows ! i) \<noteq> Scheduled \<longrightarrow>
      i < length (run_operations f c ops rows)
      \<and> status (run_operations f c ops rows ! i) \<noteq> Scheduled)
   \<and> (st2 \<in> {''completed'', ''failed'', ''busy'', ''no-answer''} \<longrightarrow>
      fst (handle_call_status_callback sid st2 (fst (handle_call_status_callback sid st1 rows)))
        = fst (handle_call_status_callback sid st2 rows))"
  using run_keeps_unscheduled [of i rows f c ops] last_event_wins [of st2 sid st1 rows]
  by blast

theorem never_back_to_scheduled_witness:
  "(0 < length [sent_reminder] \<and> status ([sent_reminder] ! 0) \<noteq> Scheduled)
   \<and> status (run_operations iso_example True
        [StatusCallback (Some ''CA1'') ''failed'', AppointmentConfirmation 1 False,
         StatusCallback (Some ''CA1'') ''completed''] [sent_reminder] ! 0) \<noteq> Scheduled
   \<and> ''completed'' \<in> {''completed'', ''failed'', ''busy'', ''no-answer''}
   \<and> fst (handle_call_status_callback (Some ''CA1'') ''completed''
         (fst (handle_call_status_callback (Some ''CA1'') ''failed'' [sent_reminder])))
       = fst (handle_call_status_callback (Some ''CA1'') ''completed'' [sent_reminder])"
proof -
  have h: "0 < length [sent_reminder] \<and> status ([sent_reminder] ! 0) \<noteq> Scheduled"
    by (simp add: sent_reminder_def)
  have k: "''completed'' \<in> {''completed'', ''failed'', ''busy'', ''no-answer''}" by simp
  from h k never_back_to_scheduled [of 0 "[sent_reminder]" iso_example True
        "[StatusCallback (Some ''CA1'') ''failed'', AppointmentConfirmation 1 False,
          StatusCallback (Some ''CA1'') ''completed'']" "''completed''" "Some ''CA1''" "''failed''"]
  show ?thesis by blast
qed

text \<open>
  Claim C1 as stated fails: the event "failed" takes the reminder of call \<open>CA1\<close> from
  \<open>Sent\<close> to the terminal status \<open>Failed\<close>, and the event "completed" that arrives
  after it takes the reminder out of \<open>Failed\<close>, to \<open>Sent\<close>. The first terminal
  transition does not win.
\<close>

theorem failed_then_completed_counterexample:
  "map status (fst (handle_call_status_callback (Some ''CA1'') ''failed'' [sent_reminder]))
     = [Failed]
   \<and> map status (fst (handle_call_status_callback (Some ''CA1'') ''completed''
         (fst (handle_call_status_callback (Some ''CA1'') ''failed'' [sent_reminder])))) = [Sent]"
  by (simp add: handle_call_status_callback_def sent_reminder_def)

section \<open>The call reference\<close>

lemma find_Some_list_all: "find P xs = Some r \<Longrightarrow> list_all Q xs \<Longrightarrow> Q r"
  using find_Some_set [of P xs r] by (simp add: list_all_iff)

lemma apply_operation_scheduled_without_sid:
  assumes "scheduled_without_sid rows"
  shows "scheduled_without_sid (apply_operation f c op rows)"
proof -
  let ?Q = "\<lambda>r. status r \<noteq> Scheduled \<or> call_sid r = None"
  have inv: "list_all ?Q rows" using assms by (simp add: scheduled_without_sid_def)
  have rec: "list_all ?Q (fst (handle_call_status_callback sid st rows))" for sid st
  proof (cases "find (\<lambda>r. call_sid r = sid) rows")
    case None
    with inv show ?thesis by (simp add: handle_call_status_callback_def)
  next
    case (Some r)
    have "?Q r" using find_Some_list_all [OF Some inv] .
    then show ?thesis
      unfolding handle_found [OF Some]
      by (intro list_all_update_first [OF inv]) auto
  qed
  have "list_all ?Q (apply_operation f c op rows)"
  proof (cases op)
    case (Create phone d name msg)
    with create_rows [of f rows phone d name msg] inv show ?thesis by auto
  next
    case (ScheduleCall rid utcnow gen provider)
    have "list_all ?Q (fst (make_reminder_call reminder rows gen c provider))" for reminder
      unfolding make_reminder_call_rows
      using make_reminder_call_status [where gen = gen and reminder = reminder and client = c and provider = provider]
      by (intro list_all_update_first [OF inv]) simp
    with schedule_rows [of rid rows utcnow gen c provider] inv ScheduleCall
    show ?thesis by auto
  next
    case (StatusCallback sid st)
    with rec show ?thesis by simp
  next
    case (AppointmentConfirmation rid confirmed)
    have "list_all ?Q (update_first (\<lambda>r. reminder_id r = rid)
                (\<lambda>_. reminder\<lparr>status := (if confirmed then Confirmed else Rescheduled)\<rparr>) rows)"
      for reminder
      by (intro list_all_update_first [OF inv]) simp
    with confirmation_rows [of rid confirmed rows] inv AppointmentConfirmation
    show ?thesis by auto
  next
    case (StatusWebhook rid)
    with rec inv show ?thesis by (simp add: webhook_rows split: option.splits)
  qed
  then show ?thesis by (simp add: scheduled_without_sid_def)
qed

lemma run_scheduled_without_sid:
  "scheduled_without_sid rows \<Longrightarrow> scheduled_without_sid (run_operations f c ops rows)"
proof (induction ops arbitrary: rows)
  case Nil
  then show ?case by (simp add: run_operations_def)
next
  case (Cons op ops)
  from Cons.IH [OF apply_operation_scheduled_without_sid [OF Cons.prems]]
  show ?case by (simp add: run_operations_def)
qed

lemma create_parsed:
  "f d = Inr t \<Longrightarrow>
     create_appointment_reminder f rows phone d name msg =
       (Inr (next_id rows),
        rows @ [\<lparr>reminder_id = next_id rows, patient_name = name, phone_number = phone,
                 appointment_date = t, message = msg, status = Scheduled, call_sid = None\<rparr>],
        [LogCreated name d])"
  by (simp add: create_appointment_reminder_def)

text \<open>
  Claim C4, as the code has it. A reminder in status \<open>Scheduled\<close> never carries a call
  reference: the property holds of every row after any sequence of operations, started
  from a table where it holds, in particular from the empty table. A freshly created
  reminder has status \<open>Scheduled\<close> and no reference. (The other direction is not an
  invariant: a reminder whose call could not be placed is \<open>Failed\<close> and has no
  reference.)
\<close>

theorem scheduled_never_carries_reference:
  "(scheduled_without_sid rows \<longrightarrow> scheduled_without_sid (run_operations f c ops rows))
   \<and> scheduled_without_sid (run_operations f c ops [])
   \<and> (f d = Inr t \<longrightarrow>
        create_appointment_reminder f rows phone d name msg =
          (Inr (next_id rows),
           rows @ [\<lparr>reminder_id = next_id rows, patient_name = name, phone_number = phone,
                    appointment_date = t, message = msg, status = Scheduled, call_sid = None\<rparr>],
           [LogCreated name d]))"
proof -
  have "scheduled_without_sid []" by (simp add: scheduled_without_sid_def)
  then have "scheduled_without_sid (run_operations f c ops [])"
    by (rule run_scheduled_without_sid)
  then show ?thesis
    using run_scheduled_without_sid [of rows f c ops] create_parsed [of f d t rows phone name msg]
    by blast
qed

theorem scheduled_never_carries_reference_witness:
  "scheduled_without_sid [fresh_reminder]
   \<and> scheduled_without_sid (run_operations iso_example True
        [ScheduleCall 1 64029088800000000 (Inr ''Hello Ann'') (Inr ''CA1'')] [fresh_reminder])
   \<and> iso_example ''2030-01-01T10:00:00'' = Inr 64029088800000000
   \<and> create_appointment_reminder iso_example [] ''+15550100'' ''2030-01-01T10:00:00''
        ''Ann'' None
       = (Inr 1, [fresh_reminder], [LogCreated ''Ann'' ''2030-01-01T10:00:00''])"
proof -
  have a: "scheduled_without_sid [fresh_reminder]"
    by (simp add: scheduled_without_sid_def fresh_reminder_def)
  have b: "iso_example ''2030-01-01T10:00:00'' = Inr 64029088800000000"
    by (simp add: iso_example_def)
  have c: "next_id [] = 1" by (simp add: next_id_def)
  from a b
    scheduled_never_carries_reference [of "[fresh_reminder]" iso_example True
      "[ScheduleCall 1 64029088800000000 (Inr ''Hello Ann'') (Inr ''CA1'')]"
      "''2030-01-01T10:00:00''" 64029088800000000 "''+15550100''" "''Ann''" None]
    scheduled_never_carries_reference [of "[]" iso_example True "[]"
      "''2030-01-01T10:00:00''" 64029088800000000 "''+15550100''" "''Ann''" None]
  show ?thesis by (simp add: c fresh_reminder_def)
qed

text \<open>
  Claim C4 as stated fails: a reminder is created and its call is attempted; the
  provider refuses the call. The reminder is then \<open>Failed\<close> and has no call reference,
  so "reference present iff status is one of Sent, Confirmed, Rescheduled, Failed" does
  not hold of it.
\<close>

theorem failed_placement_counterexample:
  "map status
     (run_operations iso_example True
        [Create ''+15550100'' ''2030-01-01T10:00:00'' ''Ann'' None,
         ScheduleCall 1 64029088800000000 (Inr ''Hello Ann'') (Inl ''provider error'')] [])
     = [Failed]
   \<and> map call_sid
     (run_operations iso_example True
        [Create ''+15550100'' ''2030-01-01T10:00:00'' ''Ann'' None,
         ScheduleCall 1 64029088800000000 (Inr ''Hello Ann'') (Inl ''provider error'')] [])
     = [None]
   \<and> \<not> list_all sid_iff_attempted
     (run_operations iso_example True
        [Create ''+15550100'' ''2030-01-01T10:00:00'' ''Ann'' None,
         ScheduleCall 1 64029088800000000 (Inr ''Hello Ann'') (Inl ''provider error'')] [])"
  by (simp add: run_operations_def create_appointment_reminder_def iso_example_def next_id_def
      schedule_reminder_call_def datetime_sub_def hours24_def make_reminder_call_def
      make_call_def sid_iff_attempted_def)

section \<open>Creating a reminder\<close>

lemma max_le_fold_max: "(a::nat) \<le> fold max xs a"
  by (induction xs arbitrary: a) (auto intro: order_trans [OF max.cobounded2])

lemma le_fold_max: "(x::nat) \<in> set xs \<Longrightarrow> x \<le> fold max xs a"
proof (induction xs arbitrary: a)
  case Nil
  then show ?case by simp
next
  case (Cons y ys)
  show ?case
  proof (cases "x = y")
    case True
    have "max y a \<le> fold max ys (max y a)" by (rule max_le_fold_max)
    with True show ?thesis by simp
  next
    case False
    with Cons show ?thesis by simp
  qed
qed

lemma next_id_fresh: "r \<in> set rows \<Longrightarrow> reminder_id r \<noteq> next_id rows"
  using le_fold_max [of "reminder_id r" "map reminder_id rows" 0]
  by (auto simp add: next_id_def)

text \<open>
  Claim C7, as the code has it. \<open>create_appointment_reminder\<close> fails if and only if
  the appointment instant cannot be parsed; then the parser's exception is raised again
  after the rollback, nothing is persisted and the error is logged. The phone number is
  not examined. For every other input a new reminder with status \<open>Scheduled\<close>, no call
  reference and an id that no stored reminder has is appended to the table, and that id
  is returned.
\<close>

theorem create_fails_iff_unparseable:
  "isl (fst (create_appointment_reminder f rows phone d name msg)) = isl (f d)
   \<and> (f d = Inl e \<longrightarrow>
        create_appointment_reminder f rows phone d name msg = (Inl e, rows, [LogCreateError e]))
   \<and> (f d = Inr t \<longrightarrow>
        create_appointment_reminder f rows phone d name msg =
          (Inr (next_id rows),
           rows @ [\<lparr>reminder_id = next_id rows, patient_name = name, phone_number = phone,
                    appointment_date = t, message = msg, status = Scheduled, call_sid = None\<rparr>],
           [LogCreated name d])
        \<and> (\<forall>r \<in> set rows. reminder_id r \<noteq> next_id rows))"
  by (cases "f d") (simp_all add: create_appointment_reminder_def next_id_fresh)

theorem create_fails_iff_unparseable_witness:
  "iso_example ''tomorrow'' = Inl ''Invalid isoformat string''
   \<and> create_appointment_reminder iso_example [sent_reminder] ''+15550101'' ''tomorrow'' ''Bob'' None
       = (Inl ''Invalid isoformat string'', [sent_reminder],
          [LogCreateError ''Invalid isoformat string''])
   \<and> iso_example ''2030-01-01T10:00:00'' = Inr 64029088800000000
   \<and> fst (create_appointment_reminder iso_example [sent_reminder] ''+15550101''
          ''2030-01-01T10:00:00'' ''Bob'' None) = Inr 2
   \<and> reminder_id sent_reminder \<noteq> next_id [sent_reminder]"
proof -
  have a: "iso_example ''tomorrow'' = Inl ''Invalid isoformat string''"
    by (simp add: iso_example_def)
  have b: "iso_example ''2030-01-01T10:00:00'' = Inr 64029088800000000"
    by (simp add: iso_example_def)
  have c: "next_id [sent_reminder] = 2" by (simp add: next_id_def sent_reminder_def)
  from a b
    create_fails_iff_unparseable [of iso_example "[sent_reminder]" "''+15550101''" "''tomorrow''"
      "''Bob''" None "''Invalid isoformat string''" 0]
    create_fails_iff_unparseable [of iso_example "[sent_reminder]" "''+15550101''"
      "''2030-01-01T10:00:00''" "''Bob''" None "[]" 64029088800000000]
  show ?thesis by (simp add: c)
qed

text \<open>
  Claim C7 as stated fails: with a parseable appointment instant and the phone number
  "not-a-phone", which no normalization of phone numbers accepts, the reminder is
  persisted and its id returned.
\<close>

theorem create_bad_phone_counterexample:
  "create_appointment_reminder iso_example [] ''not-a-phone'' ''2030-01-01T10:00:00'' ''Ann'' None
     = (Inr 1,
        [\<lparr>reminder_id = 1, patient_name = ''Ann'', phone_number = ''not-a-phone'',
          appointment_date = 64029088800000000, message = None, status = Scheduled,
          call_sid = None\<rparr>],
        [LogCreated ''Ann'' ''2030-01-01T10:00:00''])"
  by (simp add: create_appointment_reminder_def iso_example_def next_id_def)

section \<open>Scheduling the call\<close>

text \<open>
  Claim C8, as the code has it. For a stored reminder whose appointment lies at least 24
  hours after the earliest representable instant, \<open>schedule_reminder_call\<close> places the
  call at once exactly when the evaluation time is strictly later than the appointment
  minus 24 hours; otherwise, also when the evaluation time is exactly the appointment
  minus 24 hours, it places no call and reports the instant appointment minus 24 hours.
  So an appointment 48 hours out is deferred until 24 hours before it, and an
  appointment 2 hours out is called at once.
\<close>

theorem schedule_places_when_lead_time_passed:
  assumes "find (\<lambda>x. reminder_id x = rid) rows = Some r"
    and "hours24 \<le> appointment_date r"
  shows "(appointment_date r - hours24 < utcnow \<longrightarrow>
            schedule_reminder_call rid rows utcnow gen client provider
              = make_reminder_call r rows gen client provider)
       \<and> (utcnow \<le> appointment_date r - hours24 \<longrightarrow>
            schedule_reminder_call rid rows utcnow gen client provider
              = (rows, [LogWouldSchedule (appointment_date r - hours24) rid]))
       \<and> (appointment_date r = utcnow + 2 * hours24 \<longrightarrow>
            schedule_reminder_call rid rows utcnow gen client provider
              = (rows, [LogWouldSchedule (utcnow + hours24) rid]))
       \<and> (appointment_date r = utcnow + 2 * 3600 * 1000000 \<longrightarrow>
            schedule_reminder_call rid rows utcnow gen client provider
              = make_reminder_call r rows gen client provider)"
  using assms by (simp add: schedule_reminder_call_def datetime_sub_def hours24_def)

theorem schedule_places_when_lead_time_passed_witness:
  "find (\<lambda>x. reminder_id x = 1) [fresh_reminder] = Some fresh_reminder
   \<and> hours24 \<le> appointment_date fresh_reminder
   \<and> appointment_date fresh_reminder = 64028916000000000 + 2 * hours24
   \<and> schedule_reminder_call 1 [fresh_reminder] 64028916000000000 (Inr ''Hello Ann'') True (Inr ''CA1'')
       = ([fresh_reminder], [LogWouldSchedule (64028916000000000 + hours24) 1])
   \<and> appointment_date fresh_reminder = 64029081600000000 + 2 * 3600 * 1000000
   \<and> schedule_reminder_call 1 [fresh_reminder] 64029081600000000 (Inr ''Hello Ann'') True (Inr ''CA1'')
       = make_reminder_call fresh_reminder [fresh_reminder] (Inr ''Hello Ann'') True (Inr ''CA1'')"
proof -
  have a: "find (\<lambda>x. reminder_id x = 1) [fresh_reminder] = Some fresh_reminder"
    by (simp add: fresh_reminder_def)
  have b: "hours24 \<le> appointment_date fresh_reminder"
    by (simp add: fresh_reminder_def hours24_def)
  have c: "appointment_date fresh_reminder = 64028916000000000 + 2 * hours24"
    by (simp add: fresh_reminder_def hours24_def)
  have d: "appointment_date fresh_reminder = 64029081600000000 + 2 * 3600 * 1000000"
    by (simp add: fresh_reminder_def)
  from a b c d
    schedule_places_when_lead_time_passed [OF a b, of 64028916000000000 "Inr ''Hello Ann''" True "Inr ''CA1''"]
    schedule_places_when_lead_time_passed [OF a b, of 64029081600000000 "Inr ''Hello Ann''" True "Inr ''CA1''"]
  show ?thesis by blast
qed

text \<open>
  Claim C8 as stated fails at the boundary: evaluated exactly 24 hours before the
  appointment (now is at appointment minus 24 hours), \<open>schedule_reminder_call\<close> places no
  call; the table is unchanged and the log names the deferred instant.
\<close>

theorem schedule_at_boundary_counterexample:
  "appointment_date fresh_reminder - hours24 = 64029002400000000
   \<and> schedule_reminder_call 1 [fresh_reminder] 64029002400000000 (Inr ''Hello Ann'') True (Inr ''CA1'')
       = ([fresh_reminder], [LogWouldSchedule 64029002400000000 1])"
  by (simp add: schedule_reminder_call_def datetime_sub_def hours24_def fresh_reminder_def)

section \<open>Attempting the call\<close>

text \<open>
  Claim C3. \<open>_make_reminder_call\<close> on a stored reminder (whatever its status, so in
  particular on a \<open>Scheduled\<close> one): when the script is generated and \<open>make_call\<close>
  returns a call reference, the stored reminder becomes \<open>Sent\<close> and carries exactly that
  reference; when script generation raises, or \<open>make_call\<close> raises, the stored reminder
  becomes \<open>Failed\<close> and the message of the exception is written to the log. The other
  reminders are untouched.
\<close>

theorem attempt_call_outcome:
  assumes "find (\<lambda>x. reminder_id x = reminder_id r) rows = Some r"
  shows "(gen = Inr reminder_text \<and> fst (make_call client provider (phone_number r)) = Inr sid \<longrightarrow>
            find (\<lambda>x. reminder_id x = reminder_id r)
              (fst (make_reminder_call r rows gen client provider))
              = Some (r\<lparr>call_sid := Some sid, status := Sent\<rparr>))
       \<and> (gen = Inl e \<or>
            gen = Inr reminder_text \<and> fst (make_call client provider (phone_number r)) = Inl e \<longrightarrow>
            find (\<lambda>x. reminder_id x = reminder_id r)
              (fst (make_reminder_call r rows gen client provider))
              = Some (r\<lparr>status := Failed\<rparr>)
            \<and> LogCallError e \<in> set (snd (make_reminder_call r rows gen client provider)))
       \<and> filter (\<lambda>x. reminder_id x \<noteq> reminder_id r)
            (fst (make_reminder_call r rows gen client provider))
           = filter (\<lambda>x. reminder_id x \<noteq> reminder_id r) rows"
proof (intro conjI impI)
  assume "gen = Inr reminder_text \<and> fst (make_call client provider (phone_number r)) = Inr sid"
  then show "find (\<lambda>x. reminder_id x = reminder_id r)
              (fst (make_reminder_call r rows gen client provider))
              = Some (r\<lparr>call_sid := Some sid, status := Sent\<rparr>)"
    using find_update_first [OF assms, of "\<lambda>_. r\<lparr>call_sid := Some sid, status := Sent\<rparr>"]
    by (simp add: make_reminder_call_rows)
next
  assume f: "gen = Inl e \<or>
            gen = Inr reminder_text \<and> fst (make_call client provider (phone_number r)) = Inl e"
  then show "find (\<lambda>x. reminder_id x = reminder_id r)
              (fst (make_reminder_call r rows gen client provider))
              = Some (r\<lparr>status := Failed\<rparr>)"
    using find_update_first [OF assms, of "\<lambda>_. r\<lparr>status := Failed\<rparr>"]
    by (auto simp add: make_reminder_call_rows)
  from f show "LogCallError e \<in> set (snd (make_reminder_call r rows gen client provider))"
    by (auto simp add: make_reminder_call_def Let_def split: prod.splits sum.splits)
next
  show "filter (\<lambda>x. reminder_id x \<noteq> reminder_id r)
            (fst (make_reminder_call r rows gen client provider))
           = filter (\<lambda>x. reminder_id x \<noteq> reminder_id r) rows"
    unfolding make_reminder_call_rows
    by (rule filter_update_first) (simp split: sum.splits)
qed

theorem attempt_call_outcome_witness:
  "find (\<lambda>x. reminder_id x = reminder_id fresh_reminder) [fresh_reminder] = Some fresh_reminder
   \<and> status fresh_reminder = Scheduled
   \<and> fst (make_call True (Inr ''CA1'') (phone_number fresh_reminder)) = Inr ''CA1''
   \<and> find (\<lambda>x. reminder_id x = reminder_id fresh_reminder)
        (fst (make_reminder_call fresh_reminder [fresh_reminder] (Inr ''Hello Ann'') True (Inr ''CA1'')))
       = Some sent_reminder
   \<and> fst (make_call False (Inr ''CA1'') (phone_number fresh_reminder))
       = Inl ''Twilio client not initialized. Check your credentials.''
   \<and> find (\<lambda>x. reminder_id x = reminder_id fresh_reminder)
        (fst (make_reminder_call fresh_reminder [fresh_reminder] (Inr ''Hello Ann'') False (Inr ''CA1'')))
       = Some (fresh_reminder\<lparr>status := Failed\<rparr>)
   \<and> LogCallError ''Twilio client not initialized. Check your credentials.''
       \<in> set (snd (make_reminder_call fresh_reminder [fresh_reminder] (Inr ''Hello Ann'') False
                     (Inr ''CA1'')))"
proof -
  have a: "find (\<lambda>x. reminder_id x = reminder_id fresh_reminder) [fresh_reminder]
             = Some fresh_reminder" by simp
  have b: "status fresh_reminder = Scheduled" by (simp add: fresh_reminder_def)
  have c: "fst (make_call True (Inr ''CA1'') (phone_number fresh_reminder)) = Inr ''CA1''"
    by (simp add: make_call_def)
  have d: "fst (make_call False (Inr ''CA1'') (phone_number fresh_reminder))
       = Inl ''Twilio client not initialized. Check your credentials.''"
    by (simp add: make_call_def)
  have e: "fresh_reminder\<lparr>call_sid := Some ''CA1'', status := Sent\<rparr> = sent_reminder"
    by (simp add: fresh_reminder_def sent_reminder_def)
  from a b c d
    attempt_call_outcome [OF a, of "Inr ''Hello Ann''" "''Hello Ann''" True "Inr ''CA1''" "''CA1''" "[]"]
    attempt_call_outcome [OF a, of "Inr ''Hello Ann''" "''Hello Ann''" False "Inr ''CA1''" "[]"
       "''Twilio client not initialized. Check your credentials.''"]
  show ?thesis by (simp add: e)
qed

section \<open>The confirmation dialog\<close>









end
